theory Spec2Isabelle
  imports Main
begin

section \<open>Data model\<close>

text \<open>
  The two string-literal unions of the component file.  A value of either type is, at run
  time, the string that names it; \<open>stateStr\<close> and \<open>actionStr\<close> give that string.
\<close>

datatype FSCState = NOT_REQUIRED | REQUIRED | CURRENT | COMPLETED

datatype FSCAction = FUELLING | SERVICING | CLEANING

datatype variant = letter | word

fun stateStr :: "FSCState \<Rightarrow> string" where
  "stateStr NOT_REQUIRED = ''NOT_REQUIRED''"
| "stateStr REQUIRED = ''REQUIRED''"
| "stateStr CURRENT = ''CURRENT''"
| "stateStr COMPLETED = ''COMPLETED''"

fun actionStr :: "FSCAction \<Rightarrow> string" where
  "actionStr FUELLING = ''FUELLING''"
| "actionStr SERVICING = ''SERVICING''"
| "actionStr CLEANING = ''CLEANING''"

text \<open>
  The object held by \<open>useState\<close>, of type \<open>Record<FSCAction, FSCState>\<close>, is a map from
  actions to states.  Reading a key that holds no state gives JavaScript's \<open>undefined\<close>,
  which is \<open>None\<close> here; so \<open>dom m\<close> is the set of actions that have a state in \<open>m\<close>.
\<close>

type_synonym StateMap = "FSCAction \<rightharpoonup> FSCState"

section \<open>The transition function\<close>

text \<open>
  \<open>stateFlow\<close> is the object literal both versions of \<open>getNextState\<close> declare.  The first
  version of the component returns the table entry; the second tests for \<open>COMPLETED\<close>
  before it consults the table.
\<close>

fun stateFlow :: "FSCState \<Rightarrow> FSCState" where
  "stateFlow NOT_REQUIRED = REQUIRED"
| "stateFlow REQUIRED = CURRENT"
| "stateFlow CURRENT = COMPLETED"
| "stateFlow COMPLETED = CURRENT"

definition getNextState_v1 :: "FSCState \<Rightarrow> FSCState" where
  "getNextState_v1 currentState = stateFlow currentState"

definition getNextState :: "FSCState \<Rightarrow> FSCState" where
  "getNextState currentState =
     (if currentState = COMPLETED then CURRENT else stateFlow currentState)"

section \<open>Props\<close>

text \<open>
  The props of the first version (\<open>FSCMoodletProps\<close>) and of the second
  (\<open>IFSCMoodletProps\<close>), which has the same four fields and adds \<open>disabled\<close>.  Every
  prop is optional: \<open>None\<close> is a prop the caller left out.  \<open>onChange\<close> is a callback;
  the component only ever calls it, so the type \<open>'h\<close> of callbacks is left open and a
  call is recorded with the callback it went to.

  \<open>initialStates\<close> is an object of type \<open>Partial<Record<FSCAction, FSCState>>\<close> (of
  \<open>Record<FSCAction, FSCState>\<close> in the first version).  It is a map from its own keys
  to their values: \<open>m k = None\<close> is a key the object does not have, \<open>m k = Some (Some s)\<close>
  a key that holds the state \<open>s\<close>, and \<open>m k = Some None\<close> a key that is there and holds
  \<open>undefined\<close>, which the optional properties of \<open>Partial\<close> admit.
\<close>

type_synonym InitialStates = "FSCAction \<rightharpoonup> FSCState option"

record 'h FSCMoodletProps =
  initialStates :: "InitialStates option"
  variant :: "variant option"
  className :: "string option"
  onChange :: "'h option"

record 'h IFSCMoodletProps = "'h FSCMoodletProps" +
  disabled :: "bool option"

text \<open>The defaults of the destructuring pattern: \<open>{}\<close>, \<open>'letter'\<close> and \<open>false\<close>.\<close>

definition initialStatesOf :: "('h, 'z) FSCMoodletProps_scheme \<Rightarrow> InitialStates" where
  "initialStatesOf p = (case initialStates p of None \<Rightarrow> Map.empty | Some m \<Rightarrow> m)"

definition variantOf :: "('h, 'z) FSCMoodletProps_scheme \<Rightarrow> variant" where
  "variantOf p = (case variant p of None \<Rightarrow> letter | Some v \<Rightarrow> v)"

definition disabledOf :: "'h IFSCMoodletProps \<Rightarrow> bool" where
  "disabledOf p = (case disabled p of None \<Rightarrow> False | Some b \<Rightarrow> b)"

section \<open>The initial state\<close>

text \<open>
  The initialiser of \<open>useState\<close>: an object literal with the three keys set to
  \<open>'REQUIRED'\<close>, then the spread of \<open>initialStates\<close>.  The spread copies every own key
  of \<open>initialStates\<close> with its value over the default, also a key whose value is
  \<open>undefined\<close>: that action then starts without a state.  A key \<open>initialStates\<close> does
  not have keeps the default.  In the first version \<open>initialStates\<close> has no default and
  spreading \<open>undefined\<close> adds nothing, which is the same map.
\<close>

definition defaultStates :: StateMap where
  "defaultStates = [FUELLING \<mapsto> REQUIRED, SERVICING \<mapsto> REQUIRED, CLEANING \<mapsto> REQUIRED]"

definition initialStateMap :: "('h, 'z) FSCMoodletProps_scheme \<Rightarrow> StateMap" where
  "initialStateMap p =
     (\<lambda>k. case initialStatesOf p k of None \<Rightarrow> defaultStates k | Some v \<Rightarrow> v)"

section \<open>The click handler\<close>

text \<open>
  What a handler does when it fires, in order: \<open>e.preventDefault()\<close>, a call of
  \<open>setStates\<close> with the updater \<open>prev => ({...prev, [item]: newState})\<close>, and a call of
  \<open>onChange\<close>.  \<open>newState\<close> is a JavaScript value: it is \<open>undefined\<close> (\<open>None\<close>) when
  \<open>states[item]\<close> is, since neither the comparison with \<open>'COMPLETED'\<close> nor the table
  has an entry for \<open>undefined\<close>.
\<close>

datatype 'h effect =
    PreventDefault
  | SetStates FSCAction "FSCState option"
  | OnChange 'h FSCAction "FSCState option"

text \<open>
  \<open>handleClick\<close> of the second version.  \<open>states\<close> is the state object of the render
  that created the handler.
\<close>

definition handleClick ::
  "'h IFSCMoodletProps \<Rightarrow> StateMap \<Rightarrow> FSCAction \<Rightarrow> bool \<Rightarrow> 'h effect list" where
  "handleClick p states item isRightClick =
     PreventDefault #
     (if disabledOf p then []
      else
        let newState =
              (if isRightClick then Some NOT_REQUIRED
               else map_option getNextState (states item))
        in SetStates item newState #
           (case onChange p of None \<Rightarrow> [] | Some cb \<Rightarrow> [OnChange cb item newState]))"

text \<open>
  \<open>handleClick\<close> of the first version: there is no \<open>disabled\<close> prop to test.  The
  first value of \<open>newState\<close>, \<open>states[item]\<close>, is overwritten on both branches.
\<close>

definition handleClick_v1 ::
  "'h FSCMoodletProps \<Rightarrow> StateMap \<Rightarrow> FSCAction \<Rightarrow> bool \<Rightarrow> 'h effect list" where
  "handleClick_v1 p states item isRightClick =
     PreventDefault #
     (let newState =
            (if isRightClick then Some NOT_REQUIRED
             else map_option getNextState_v1 (states item))
      in SetStates item newState #
         (case onChange p of None \<Rightarrow> [] | Some cb \<Rightarrow> [OnChange cb item newState]))"

text \<open>
  The state cell.  An updater \<open>prev => ({...prev, [item]: newState})\<close> copies the object
  and stores \<open>newState\<close> under \<open>item\<close>; the other effects leave the cell alone.
  \<open>notifications\<close> lists the calls of \<open>onChange\<close>, in order, each with the callback that
  received it.
\<close>

fun setStates :: "StateMap \<Rightarrow> 'h effect \<Rightarrow> StateMap" where
  "setStates prev (SetStates item newState) = prev(item := newState)"
| "setStates prev PreventDefault = prev"
| "setStates prev (OnChange cb item newState) = prev"

fun notifications :: "'h effect list \<Rightarrow> ('h \<times> FSCAction \<times> FSCState option) list" where
  "notifications [] = []"
| "notifications (OnChange cb item newState # es) = (cb, item, newState) # notifications es"
| "notifications (PreventDefault # es) = notifications es"
| "notifications (SetStates item newState # es) = notifications es"

text \<open>
  One activation of the control of \<open>item\<close> on a mounted component whose state is \<open>cur\<close>:
  the handler of the current render fires (\<open>onClick\<close> is \<open>handleClick(item)\<close>, the
  primary activation; \<open>onContextMenu\<close> is \<open>handleClick(item, true)\<close>, the secondary one),
  its updaters are applied to the state, and its calls of \<open>onChange\<close> are what the
  outside sees.
\<close>

definition activate ::
  "'h IFSCMoodletProps \<Rightarrow> FSCAction \<Rightarrow> bool \<Rightarrow> StateMap \<Rightarrow>
   StateMap \<times> ('h \<times> FSCAction \<times> FSCState option) list" where
  "activate p item isRightClick cur =
     (let effects = handleClick p cur item isRightClick
      in (foldl setStates cur effects, notifications effects))"

definition activate_v1 ::
  "'h FSCMoodletProps \<Rightarrow> FSCAction \<Rightarrow> bool \<Rightarrow> StateMap \<Rightarrow>
   StateMap \<times> ('h \<times> FSCAction \<times> FSCState option) list" where
  "activate_v1 p item isRightClick cur =
     (let effects = handleClick_v1 p cur item isRightClick
      in (foldl setStates cur effects, notifications effects))"

text \<open>
  A sequence of activations, each given as the action and whether it is the secondary
  gesture; the component renders again after each, so every handler sees the state the
  one before it left.
\<close>

fun activations ::
  "'h IFSCMoodletProps \<Rightarrow> (FSCAction \<times> bool) list \<Rightarrow> StateMap \<Rightarrow>
   StateMap \<times> ('h \<times> FSCAction \<times> FSCState option) list" where
  "activations p [] cur = (cur, [])"
| "activations p ((item, isRightClick) # evs) cur =
     (let (cur', calls) = activate p item isRightClick cur;
          (final, calls') = activations p evs cur'
      in (final, calls @ calls'))"

section \<open>Joining class names\<close>

text \<open>
  \<open>joinClassNames\<close> is \<open>classes.filter(Boolean).join(' ')\<close> over an array of strings and
  \<open>undefined\<close>s.  \<open>Boolean\<close> is false on \<open>undefined\<close> and on the empty string and true on
  every other string.  \<open>join\<close> is the loop of \<open>Array.prototype.join\<close>: from the second
  element on it appends the separator before the element, and an \<open>undefined\<close> element
  contributes the empty string.
\<close>

definition Boolean :: "string option \<Rightarrow> bool" where
  "Boolean v = (case v of None \<Rightarrow> False | Some s \<Rightarrow> s \<noteq> [])"

fun join_loop :: "string \<Rightarrow> string \<Rightarrow> nat \<Rightarrow> string option list \<Rightarrow> string" where
  "join_loop sep R k [] = R"
| "join_loop sep R k (element # rest) =
     join_loop sep
       ((if 0 < k then R @ sep else R) @ (case element of None \<Rightarrow> [] | Some s \<Rightarrow> s))
       (Suc k) rest"

definition join :: "string \<Rightarrow> string option list \<Rightarrow> string" where
  "join sep xs = join_loop sep [] 0 xs"

definition joinClassNames :: "string option list \<Rightarrow> string" where
  "joinClassNames classes = join '' '' (filter Boolean classes)"

text \<open>
  The contract in the specification's words, to compare \<open>joinClassNames\<close> with: keep the
  tokens that are defined and non-empty, in order, and write them with one space between
  neighbours.
\<close>

fun presentTokens_spec :: "string option list \<Rightarrow> string list" where
  "presentTokens_spec [] = []"
| "presentTokens_spec (None # ts) = presentTokens_spec ts"
| "presentTokens_spec (Some s # ts) =
     (if s = [] then presentTokens_spec ts else s # presentTokens_spec ts)"

fun spaceJoined_spec :: "string list \<Rightarrow> string" where
  "spaceJoined_spec [] = []"
| "spaceJoined_spec [t] = t"
| "spaceJoined_spec (t # u # us) = t @ '' '' @ spaceJoined_spec (u # us)"

definition ClassJoiner_spec :: "string option list \<Rightarrow> string" where
  "ClassJoiner_spec tokens = spaceJoined_spec (presentTokens_spec tokens)"

section \<open>Rendering a control\<close>

text \<open>
  Strings are ASCII here, as the action and state names are.  \<open>item[0]\<close> is the
  one-character string at index 0, or \<open>undefined\<close> for the empty string;
  \<open>toLowerCase\<close> maps \<open>A\<close> to \<open>Z\<close> onto \<open>a\<close> to \<open>z\<close>; \<open>replace\<close> with a string pattern
  replaces the first occurrence only.
\<close>

definition index0 :: "string \<Rightarrow> string option" where
  "index0 s = (case s of [] \<Rightarrow> None | c # _ \<Rightarrow> Some [c])"

definition lowerChar :: "char \<Rightarrow> char" where
  "lowerChar c =
     (let n = (of_char c :: nat) in if 65 \<le> n \<and> n \<le> 90 then char_of (n + 32) else c)"

definition toLowerCase :: "string \<Rightarrow> string" where
  "toLowerCase s = map lowerChar s"

fun replaceFirst :: "char \<Rightarrow> char \<Rightarrow> string \<Rightarrow> string" where
  "replaceFirst a b [] = []"
| "replaceFirst a b (c # cs) = (if c = a then b # cs else c # replaceFirst a b cs)"

text \<open>
  The element \<open>renderMoodlet\<close> returns.  \<open>children\<close> is the JSX child \<open>{label}\<close>, a string
  or \<open>undefined\<close>; \<open>visibleLabel\<close> is the text it shows (\<open>undefined\<close> shows nothing).
  \<open>onClick\<close> and \<open>onContextMenu\<close> hold what the two handlers do when they fire.
\<close>

record 'h button =
  buttonType :: string
  buttonKey :: string
  buttonClassName :: string
  onClick :: "'h effect list"
  onContextMenu :: "'h effect list"
  title :: string
  buttonDisabled :: bool
  children :: "string option"

definition visibleLabel :: "'h button \<Rightarrow> string" where
  "visibleLabel b = (case children b of None \<Rightarrow> [] | Some t \<Rightarrow> t)"

datatype error = TypeError

fun styles :: "FSCState \<Rightarrow> string" where
  "styles NOT_REQUIRED = ''bg-purple-100 text-purple-700 hover:bg-purple-200''"
| "styles REQUIRED = ''bg-purple-200 text-purple-800 hover:bg-purple-300''"
| "styles CURRENT = ''bg-red-200 text-red-800 hover:bg-red-300''"
| "styles COMPLETED = ''bg-green-200 text-green-800 hover:bg-green-300''"

definition getStateStyle :: "'h IFSCMoodletProps \<Rightarrow> FSCState option \<Rightarrow> string" where
  "getStateStyle p state =
     (let baseStyle = ''transition-colors duration-200''
      in joinClassNames
           [Some baseStyle, map_option styles state,
            if disabledOf p then Some ''opacity-50 cursor-not-allowed'' else None])"

text \<open>
  \<open>renderMoodlet\<close> of the second version.  The class string is built first, which
  \<open>undefined\<close> passes through; \<open>state.replace\<close> in the title then throws a \<open>TypeError\<close>
  when \<open>states[item]\<close> is \<open>undefined\<close>.
\<close>

definition renderMoodlet ::
  "'h IFSCMoodletProps \<Rightarrow> StateMap \<Rightarrow> FSCAction \<Rightarrow> error + 'h button" where
  "renderMoodlet p states item =
     (let label = (if variantOf p = letter then index0 (actionStr item)
                   else Some (toLowerCase (actionStr item)));
          state = states item;
          buttonSize = (if variantOf p = letter then ''w-8 h-8'' else ''px-4 py-1'');
          cls = joinClassNames
                  [Some ''rounded-full font-medium'',
                   Some ''focus:outline-none focus:ring-2 focus:ring-offset-2 focus:ring-purple-500'',
                   Some buttonSize,
                   Some (getStateStyle p state)]
      in case state of
           None \<Rightarrow> Inl TypeError
         | Some st \<Rightarrow>
             Inr \<lparr> buttonType = ''button'',
                   buttonKey = actionStr item,
                   buttonClassName = cls,
                   onClick = handleClick p states item False,
                   onContextMenu = handleClick p states item True,
                   title = actionStr item @ '' - '' @ replaceFirst (CHR ''_'') (CHR '' '') (stateStr st),
                   buttonDisabled = disabledOf p,
                   children = label \<rparr>)"

text \<open>
  \<open>renderMoodlet\<close> of the first version.  Its class string comes from \<open>cn\<close> of
  \<open>lib/utils/merge-class-names\<close>, a module that is not among the sources; \<open>cn\<close> is a
  parameter here.  The element has no \<open>disabled\<close> attribute, which is a button that is
  not disabled.
\<close>

fun colors :: "FSCState \<Rightarrow> string" where
  "colors NOT_REQUIRED = ''bg-purple-100 text-purple-700''"
| "colors REQUIRED = ''bg-purple-200 text-purple-800''"
| "colors CURRENT = ''bg-red-200 text-red-800''"
| "colors COMPLETED = ''bg-green-200 text-green-800''"

definition getStateColor :: "FSCState option \<Rightarrow> string option" where
  "getStateColor state = map_option colors state"

definition renderMoodlet_v1 ::
  "(string option list \<Rightarrow> string) \<Rightarrow> 'h FSCMoodletProps \<Rightarrow> StateMap \<Rightarrow> FSCAction \<Rightarrow>
   error + 'h button" where
  "renderMoodlet_v1 cn p states item =
     (let label = (if variantOf p = letter then index0 (actionStr item)
                   else Some (actionStr item));
          state = states item;
          cls = cn [Some ''px-3 py-1 rounded-full font-medium transition-colors'',
                    Some ''focus:outline-none focus:ring-2 focus:ring-offset-2'',
                    getStateColor state,
                    Some (if variantOf p = word then ''text-sm'' else ''text-xs w-8 h-8'')]
      in case state of
           None \<Rightarrow> Inl TypeError
         | Some st \<Rightarrow>
             Inr \<lparr> buttonType = ''button'',
                   buttonKey = actionStr item,
                   buttonClassName = cls,
                   onClick = handleClick_v1 p states item False,
                   onContextMenu = handleClick_v1 p states item True,
                   title = actionStr item @ '' - '' @ replaceFirst (CHR ''_'') (CHR '' '') (stateStr st),
                   buttonDisabled = False,
                   children = label \<rparr>)"

section \<open>Example components\<close>

text \<open>
  The components the properties below are tried on.  \<open>exampleProps\<close> is the scenario of
  the specification (\<open>initialStates = {SERVICING: 'CURRENT'}\<close>, the letter variant);
  \<open>disabledProps\<close> is the disabled component of the demo page; \<open>firstProps\<close> is the
  component of the first demo page, for the first version; \<open>wordProps\<close> is a first-version
  component of the word variant; \<open>undefinedProps\<close> passes
  \<open>initialStates = {FUELLING: undefined}\<close>.  The callback is named by a string.
\<close>

definition exampleProps :: "string IFSCMoodletProps" where
  "exampleProps =
     \<lparr> initialStates = Some [SERVICING \<mapsto> Some CURRENT], variant = Some letter,
       className = None,
       onChange = Some ''handleStateChange'', disabled = None \<rparr>"

definition disabledProps :: "string IFSCMoodletProps" where
  "disabledProps =
     \<lparr> initialStates =
         Some [FUELLING \<mapsto> Some COMPLETED, SERVICING \<mapsto> Some CURRENT,
               CLEANING \<mapsto> Some REQUIRED],
       variant = Some letter, className = None, onChange = Some ''handleStateChange'',
       disabled = Some True \<rparr>"

definition firstProps :: "string FSCMoodletProps" where
  "firstProps =
     \<lparr> initialStates =
         Some [FUELLING \<mapsto> Some REQUIRED, SERVICING \<mapsto> Some CURRENT,
               CLEANING \<mapsto> Some COMPLETED],
       variant = None, className = None, onChange = Some ''handleStateChange'' \<rparr>"

definition wordProps :: "string FSCMoodletProps" where
  "wordProps = \<lparr> initialStates = None, variant = Some word, className = None, onChange = None \<rparr>"

definition wordProps2 :: "string IFSCMoodletProps" where
  "wordProps2 =
     \<lparr> initialStates = None, variant = Some word, className = None, onChange = None,
       disabled = None \<rparr>"


section \<open>Helper facts\<close>

lemma action_UNIV: "(UNIV :: FSCAction set) = {FUELLING, SERVICING, CLEANING}"
proof -
  have "a \<in> {FUELLING, SERVICING, CLEANING}" for a
    by (cases a) simp_all
  then show ?thesis by blast
qed

lemma activate_enabled:
  "\<not> disabledOf p \<Longrightarrow>
   activate p item r cur =
     (cur(item := (if r then Some NOT_REQUIRED else map_option getNextState (cur item))),
      case onChange p of None \<Rightarrow> []
      | Some cb \<Rightarrow>
          [(cb, item, if r then Some NOT_REQUIRED else map_option getNextState (cur item))])"
  by (simp add: activate_def handleClick_def Let_def split: option.splits)

lemma activate_disabled: "disabledOf p \<Longrightarrow> activate p item r cur = (cur, [])"
  by (simp add: activate_def handleClick_def)

lemma getNextState_not_NOT_REQUIRED: "getNextState s \<noteq> NOT_REQUIRED"
  by (cases s) (simp_all add: getNextState_def)

lemma activations_snoc:
  "fst (activations p (evs @ [(item, r)]) cur) =
   fst (activate p item r (fst (activations p evs cur)))"
  by (induction evs arbitrary: cur) (auto simp: split_beta Let_def)

lemma activations_disabled: "disabledOf p \<Longrightarrow> activations p evs cur = (cur, [])"
  by (induction evs arbitrary: cur) (auto simp: activate_disabled)

lemma defaultStates_apply: "defaultStates A = Some REQUIRED"
  by (cases A) (simp_all add: defaultStates_def)

lemma initialStateMap_apply:
  "initialStateMap p A =
   (case initialStatesOf p A of None \<Rightarrow> Some REQUIRED | Some v \<Rightarrow> v)"
  by (simp add: initialStateMap_def defaultStates_apply split: option.splits)

lemma dom_initialStateMap:
  assumes "\<forall>B. initialStatesOf p B \<noteq> Some None"
  shows "dom (initialStateMap p) = {FUELLING, SERVICING, CLEANING}"
proof -
  have "initialStateMap p A \<noteq> None" for A
  proof (cases "initialStatesOf p A")
    case None
    then show ?thesis by (simp add: initialStateMap_apply)
  next
    case (Some v)
    with assms have "v \<noteq> None" by metis
    with Some show ?thesis by (simp add: initialStateMap_apply)
  qed
  then have "dom (initialStateMap p) = UNIV"
    by (auto simp: dom_def)
  then show ?thesis by (simp add: action_UNIV)
qed

lemma exampleProps_enabled: "\<not> disabledOf exampleProps"
  by (simp add: disabledOf_def exampleProps_def)

lemma exampleProps_initial:
  "initialStateMap exampleProps A = Some (if A = SERVICING then CURRENT else REQUIRED)"
  by (simp add: initialStateMap_apply initialStatesOf_def exampleProps_def)

lemma toLowerCase_FUELLING: "toLowerCase ''FUELLING'' = ''fuelling''"
  by code_simp

lemma toLowerCase_SERVICING: "toLowerCase ''SERVICING'' = ''servicing''"
  by code_simp

lemma toLowerCase_CLEANING: "toLowerCase ''CLEANING'' = ''cleaning''"
  by code_simp

lemma index0_actionStr: "index0 (actionStr item) = Some (take 1 (actionStr item))"
  by (cases item) (simp_all add: index0_def)

lemma filter_Boolean: "filter Boolean classes = map Some (presentTokens_spec classes)"
proof (induction classes)
  case Nil
  show ?case by simp
next
  case (Cons c cs)
  then show ?case by (cases c) (simp_all add: Boolean_def)
qed

lemma join_loop_Some:
  "join_loop '' '' R k (map Some (s # ss)) =
   (if 0 < k then R @ '' '' else R) @ spaceJoined_spec (s # ss)"
proof (induction ss arbitrary: R k s)
  case Nil
  show ?case by simp
next
  case (Cons t ts)
  have "join_loop '' '' R k (map Some (s # t # ts)) =
        join_loop '' '' ((if 0 < k then R @ '' '' else R) @ s) (Suc k) (map Some (t # ts))"
    by simp
  also have "\<dots> = (((if 0 < k then R @ '' '' else R) @ s) @ '' '') @ spaceJoined_spec (t # ts)"
    by (simp only: Cons.IH) simp
  finally show ?case by simp
qed

lemma activate_sets_NOT_REQUIRED:
  assumes "fst (activate p item r cur) B = Some NOT_REQUIRED"
    and "cur B \<noteq> Some NOT_REQUIRED"
  shows "item = B \<and> r \<and> \<not> disabledOf p"
proof (cases "disabledOf p")
  case True
  with assms show ?thesis by (simp add: activate_disabled)
next
  case False
  with assms show ?thesis
    by (auto simp: activate_enabled getNextState_not_NOT_REQUIRED split: if_splits)
qed

lemma getNextState_funpow_REQUIRED:
  "(getNextState ^^ Suc n) REQUIRED = (if even n then CURRENT else COMPLETED)"
  by (induction n) (simp_all add: getNextState_def)

lemma primary_activations_funpow:
  "\<not> disabledOf p \<Longrightarrow>
   fst (activations p (replicate n (A, False)) cur) A = map_option (getNextState ^^ n) (cur A)"
proof (induction n arbitrary: cur)
  case 0
  show ?case by (simp add: option.map_ident)
next
  case (Suc n)
  let ?cur' = "cur(A := map_option getNextState (cur A))"
  have "fst (activations p (replicate (Suc n) (A, False)) cur) A =
        fst (activations p (replicate n (A, False)) ?cur') A"
    using Suc.prems by (simp add: activate_enabled split_beta)
  also have "\<dots> = map_option (getNextState ^^ n) (?cur' A)"
    using Suc.prems by (rule Suc.IH)
  also have "\<dots> = map_option (getNextState ^^ Suc n) (cur A)"
    by (simp add: option.map_comp funpow_swap1 o_def)
  finally show ?case .
qed

section \<open>Properties\<close>

text \<open>
  C1.  In both versions of the component the transition function is the four-entry
  table: NOT_REQUIRED goes to REQUIRED, REQUIRED to CURRENT, CURRENT to COMPLETED and
  COMPLETED back to CURRENT; these four are all the states there are.
\<close>

theorem getNextState_table:
  "getNextState NOT_REQUIRED = REQUIRED \<and> getNextState REQUIRED = CURRENT \<and>
   getNextState CURRENT = COMPLETED \<and> getNextState COMPLETED = CURRENT \<and>
   getNextState_v1 NOT_REQUIRED = REQUIRED \<and> getNextState_v1 REQUIRED = CURRENT \<and>
   getNextState_v1 CURRENT = COMPLETED \<and> getNextState_v1 COMPLETED = CURRENT \<and>
   (UNIV :: FSCState set) = {NOT_REQUIRED, REQUIRED, CURRENT, COMPLETED}"
proof -
  have "s \<in> {NOT_REQUIRED, REQUIRED, CURRENT, COMPLETED}" for s
    by (cases s) simp_all
  then have "(UNIV :: FSCState set) = {NOT_REQUIRED, REQUIRED, CURRENT, COMPLETED}"
    by blast
  then show ?thesis
    by (simp add: getNextState_def getNextState_v1_def)
qed

text \<open>
  C2.  On a component that is not disabled, whose state map has a state \<open>s\<close> for the
  action \<open>A\<close> and a state for each of the three actions, one primary activation of \<open>A\<close>
  leaves a state map that holds \<open>getNextState s\<close> for \<open>A\<close>, holds for every other action
  what it held before, and still has exactly the three actions as its keys; \<open>onChange\<close>,
  when the props have one, is called once, with \<open>A\<close> and \<open>getNextState s\<close>, and is not
  called otherwise.
\<close>

theorem primary_activation:
  "cur A = Some s \<Longrightarrow> dom cur = {FUELLING, SERVICING, CLEANING} \<Longrightarrow> \<not> disabledOf p \<Longrightarrow>
   (case activate p A False cur of
      (cur', calls) \<Rightarrow>
        cur' A = Some (getNextState s) \<and>
        (\<forall>B. B \<noteq> A \<longrightarrow> cur' B = cur B) \<and>
        dom cur' = {FUELLING, SERVICING, CLEANING} \<and>
        calls =
          (case onChange p of None \<Rightarrow> [] | Some cb \<Rightarrow> [(cb, A, Some (getNextState s))]))"
  by (auto simp: activate_enabled split: option.splits)

text \<open>
  The scenario of the specification: with \<open>initialStates = {SERVICING: 'CURRENT'}\<close>, one
  primary activation of FUELLING gives FUELLING: CURRENT, SERVICING: CURRENT, CLEANING:
  REQUIRED and one call \<open>onChange('FUELLING', 'CURRENT')\<close>.
\<close>

theorem primary_activation_witness:
  "initialStateMap exampleProps FUELLING = Some REQUIRED \<and>
   dom (initialStateMap exampleProps) = {FUELLING, SERVICING, CLEANING} \<and>
   \<not> disabledOf exampleProps \<and>
   activate exampleProps FUELLING False (initialStateMap exampleProps) =
     ([FUELLING \<mapsto> CURRENT, SERVICING \<mapsto> CURRENT, CLEANING \<mapsto> REQUIRED],
      [(''handleStateChange'', FUELLING, Some CURRENT)])"
proof -
  let ?cur = "initialStateMap exampleProps"
  have h1: "?cur FUELLING = Some REQUIRED"
    by (simp add: exampleProps_initial)
  have h2: "dom ?cur = {FUELLING, SERVICING, CLEANING}"
    by (rule dom_initialStateMap) (simp add: initialStatesOf_def exampleProps_def)
  have h3: "\<not> disabledOf exampleProps"
    by (rule exampleProps_enabled)
  obtain cur' calls where a: "activate exampleProps FUELLING False ?cur = (cur', calls)"
    by (cases "activate exampleProps FUELLING False ?cur")
  from primary_activation [OF h1 h2 h3] a
  have c1: "cur' FUELLING = Some CURRENT"
    and c2: "\<forall>B. B \<noteq> FUELLING \<longrightarrow> cur' B = ?cur B"
    and c3: "calls = [(''handleStateChange'', FUELLING, Some CURRENT)]"
    by (simp_all add: getNextState_def exampleProps_def)
  have "cur' B = [FUELLING \<mapsto> CURRENT, SERVICING \<mapsto> CURRENT, CLEANING \<mapsto> REQUIRED] B" for B
    using c1 c2 by (cases B) (simp_all add: exampleProps_initial)
  then have "cur' = [FUELLING \<mapsto> CURRENT, SERVICING \<mapsto> CURRENT, CLEANING \<mapsto> REQUIRED]"
    by (rule ext)
  with h1 h2 h3 a c3 show ?thesis by simp
qed

text \<open>
  C3.  On a component that is not disabled, one secondary activation of the action \<open>A\<close>,
  whatever state \<open>s\<close> it has, stores NOT_REQUIRED for \<open>A\<close> (and changes nothing else), and
  \<open>onChange\<close>, when the props have one, is called with \<open>A\<close> and NOT_REQUIRED.
\<close>

theorem secondary_activation:
  "cur A = Some s \<Longrightarrow> \<not> disabledOf p \<Longrightarrow>
   activate p A True cur =
     (cur(A \<mapsto> NOT_REQUIRED),
      case onChange p of None \<Rightarrow> [] | Some cb \<Rightarrow> [(cb, A, Some NOT_REQUIRED)])"
  by (simp add: activate_enabled)

theorem secondary_activation_witness:
  "initialStateMap exampleProps SERVICING = Some CURRENT \<and>
   \<not> disabledOf exampleProps \<and>
   activate exampleProps SERVICING True (initialStateMap exampleProps) =
     ([FUELLING \<mapsto> REQUIRED, SERVICING \<mapsto> NOT_REQUIRED, CLEANING \<mapsto> REQUIRED],
      [(''handleStateChange'', SERVICING, Some NOT_REQUIRED)])"
proof -
  let ?cur = "initialStateMap exampleProps"
  have h1: "?cur SERVICING = Some CURRENT"
    by (simp add: exampleProps_initial)
  have h2: "\<not> disabledOf exampleProps"
    by (rule exampleProps_enabled)
  have "(?cur(SERVICING \<mapsto> NOT_REQUIRED)) B =
        [FUELLING \<mapsto> REQUIRED, SERVICING \<mapsto> NOT_REQUIRED, CLEANING \<mapsto> REQUIRED] B" for B
    by (cases B) (simp_all add: exampleProps_initial)
  then have "?cur(SERVICING \<mapsto> NOT_REQUIRED) =
        [FUELLING \<mapsto> REQUIRED, SERVICING \<mapsto> NOT_REQUIRED, CLEANING \<mapsto> REQUIRED]"
    by (rule ext)
  with secondary_activation [of "initialStateMap exampleProps" SERVICING CURRENT exampleProps]
    h1 h2
  show ?thesis
    by (simp add: exampleProps_def)
qed

text \<open>
  C4.  On a disabled component every activation, primary or secondary, of any action
  leaves the whole state map as it was and calls \<open>onChange\<close> not at all; so does every
  sequence of activations.
\<close>

theorem disabled_is_noop:
  "disabledOf p \<Longrightarrow>
   activate p A isRightClick cur = (cur, []) \<and> activations p evs cur = (cur, [])"
  by (simp add: activate_disabled activations_disabled)

theorem disabled_is_noop_witness:
  "disabledOf disabledProps \<and>
   activate disabledProps FUELLING False (initialStateMap disabledProps) =
     (initialStateMap disabledProps, []) \<and>
   activate disabledProps FUELLING True (initialStateMap disabledProps) =
     (initialStateMap disabledProps, []) \<and>
   activations disabledProps [(FUELLING, False), (CLEANING, True)]
     (initialStateMap disabledProps) = (initialStateMap disabledProps, [])"
proof -
  have h: "disabledOf disabledProps"
    by (simp add: disabledOf_def disabledProps_def)
  note a = disabled_is_noop [OF h, of FUELLING False "initialStateMap disabledProps"
      "[(FUELLING, False), (CLEANING, True)]"]
  note b = disabled_is_noop [OF h, of FUELLING True "initialStateMap disabledProps" "[]"]
  from h a b show ?thesis by blast
qed



text \<open>
  C6 (as amended).  For every action that has a state, the control rendered by the second
  version shows the first character of the action's name in the letter variant and the
  lower-cased name in the word variant.  The control rendered by the first version shows
  the first character in the letter variant too, and in the word variant the name as it
  is, in upper case.  The first characters are F, S and C, and the lower-cased names are
  fuelling, servicing and cleaning.
\<close>

theorem visible_label:
  "states item = Some st \<Longrightarrow>
   (\<exists>b. renderMoodlet p states item = Inr b \<and>
        visibleLabel b =
          (if variantOf p = letter then take 1 (actionStr item)
           else toLowerCase (actionStr item))) \<and>
   (\<exists>b. renderMoodlet_v1 cn q states item = Inr b \<and>
        visibleLabel b =
          (if variantOf q = letter then take 1 (actionStr item) else actionStr item)) \<and>
   take 1 (actionStr item) =
     (case item of FUELLING \<Rightarrow> ''F'' | SERVICING \<Rightarrow> ''S'' | CLEANING \<Rightarrow> ''C'') \<and>
   toLowerCase (actionStr item) =
     (case item of FUELLING \<Rightarrow> ''fuelling'' | SERVICING \<Rightarrow> ''servicing''
      | CLEANING \<Rightarrow> ''cleaning'')"
proof -
  assume st: "states item = Some st"
  have a: "\<exists>b. renderMoodlet p states item = Inr b \<and>
        visibleLabel b =
          (if variantOf p = letter then take 1 (actionStr item)
           else toLowerCase (actionStr item))"
    using st by (simp add: renderMoodlet_def Let_def visibleLabel_def index0_actionStr)
  have b: "\<exists>b. renderMoodlet_v1 cn q states item = Inr b \<and>
        visibleLabel b =
          (if variantOf q = letter then take 1 (actionStr item) else actionStr item)"
    using st by (simp add: renderMoodlet_v1_def Let_def visibleLabel_def index0_actionStr)
  have c: "take 1 (actionStr item) =
      (case item of FUELLING \<Rightarrow> ''F'' | SERVICING \<Rightarrow> ''S'' | CLEANING \<Rightarrow> ''C'')"
    by (cases item) simp_all
  have d: "toLowerCase (actionStr item) =
     (case item of FUELLING \<Rightarrow> ''fuelling'' | SERVICING \<Rightarrow> ''servicing''
      | CLEANING \<Rightarrow> ''cleaning'')"
    by (cases item)
      (simp_all add: toLowerCase_FUELLING toLowerCase_SERVICING toLowerCase_CLEANING)
  from a b c d show ?thesis by blast
qed

theorem visible_label_witness:
  "defaultStates FUELLING = Some REQUIRED \<and>
   (case renderMoodlet wordProps2 defaultStates FUELLING of
      Inl e \<Rightarrow> False | Inr b \<Rightarrow> visibleLabel b = ''fuelling'') \<and>
   (case renderMoodlet exampleProps defaultStates FUELLING of
      Inl e \<Rightarrow> False | Inr b \<Rightarrow> visibleLabel b = ''F'') \<and>
   (case renderMoodlet_v1 joinClassNames wordProps defaultStates FUELLING of
      Inl e \<Rightarrow> False | Inr b \<Rightarrow> visibleLabel b = ''FUELLING'') \<and>
   (case renderMoodlet_v1 joinClassNames firstProps defaultStates FUELLING of
      Inl e \<Rightarrow> False | Inr b \<Rightarrow> visibleLabel b = ''F'')"
proof -
  have h: "defaultStates FUELLING = Some REQUIRED"
    by (rule defaultStates_apply)
  have v: "variantOf wordProps2 = word" "variantOf wordProps = word"
    "variantOf exampleProps = letter" "variantOf firstProps = letter"
    by (simp_all add: variantOf_def wordProps2_def wordProps_def exampleProps_def firstProps_def)
  note a = visible_label [of defaultStates FUELLING REQUIRED wordProps2 joinClassNames wordProps,
      OF h]
  note b = visible_label [of defaultStates FUELLING REQUIRED exampleProps joinClassNames firstProps,
      OF h]
  from a have "case renderMoodlet wordProps2 defaultStates FUELLING of
      Inl e \<Rightarrow> False | Inr b \<Rightarrow> visibleLabel b = ''fuelling''"
    by (auto simp: v)
  moreover from a have "case renderMoodlet_v1 joinClassNames wordProps defaultStates FUELLING of
      Inl e \<Rightarrow> False | Inr b \<Rightarrow> visibleLabel b = ''FUELLING''"
    by (auto simp: v)
  moreover from b have "case renderMoodlet exampleProps defaultStates FUELLING of
      Inl e \<Rightarrow> False | Inr b \<Rightarrow> visibleLabel b = ''F''"
    by (auto simp: v)
  moreover from b have "case renderMoodlet_v1 joinClassNames firstProps defaultStates FUELLING of
      Inl e \<Rightarrow> False | Inr b \<Rightarrow> visibleLabel b = ''F''"
    by (auto simp: v)
  ultimately show ?thesis using h by blast
qed

text \<open>
  C6 as it was stated fails on the first version: in the word variant its control for
  FUELLING shows \<open>FUELLING\<close>, which is not the lower-cased name.
\<close>

theorem first_version_word_label_counterexample:
  "\<not> (case renderMoodlet_v1 joinClassNames wordProps defaultStates FUELLING of
        Inl e \<Rightarrow> False
      | Inr b \<Rightarrow> visibleLabel b = toLowerCase (actionStr FUELLING))"
  by (simp add: renderMoodlet_v1_def defaultStates_apply variantOf_def wordProps_def
      visibleLabel_def toLowerCase_FUELLING)

text \<open>
  C7.  \<open>joinClassNames\<close> returns the tokens that are defined and non-empty, in order,
  with one space between neighbours; \<open>['a', undefined, 'b']\<close> gives \<open>a b\<close> and the empty
  sequence gives the empty string.
\<close>

theorem joinClassNames_contract:
  "joinClassNames classes = ClassJoiner_spec classes \<and>
   joinClassNames [Some ''a'', None, Some ''b''] = ''a b'' \<and>
   joinClassNames [] = []"
proof -
  have gen: "joinClassNames cs = spaceJoined_spec (presentTokens_spec cs)" for cs
  proof (cases "presentTokens_spec cs")
    case Nil
    then show ?thesis by (simp add: joinClassNames_def join_def filter_Boolean)
  next
    case (Cons s ss)
    then show ?thesis
      by (simp only: joinClassNames_def join_def filter_Boolean join_loop_Some) simp
  qed
  have "joinClassNames [Some ''a'', None, Some ''b''] = ''a b''"
    by (simp add: gen)
  moreover have "joinClassNames [] = []"
    by (simp add: gen)
  ultimately show ?thesis using gen by (simp add: ClassJoiner_spec_def)
qed

text \<open>
  C8.  \<open>getNextState\<close> never returns NOT_REQUIRED, and a handler of a primary activation
  never stores it.  So in every sequence of activations, from every starting state map, a
  step after which an action \<open>B\<close> is NOT_REQUIRED, when it was not just before, is a
  secondary activation of \<open>B\<close>.
\<close>

theorem NOT_REQUIRED_only_by_secondary:
  "(\<forall>s. getNextState s \<noteq> NOT_REQUIRED) \<and>
   (\<forall>states item v. SetStates item v \<in> set (handleClick p states item False) \<longrightarrow>
      v \<noteq> Some NOT_REQUIRED) \<and>
   (\<forall>i. i < length evs \<longrightarrow>
      fst (activations p (take (Suc i) evs) cur) B = Some NOT_REQUIRED \<longrightarrow>
      fst (activations p (take i evs) cur) B \<noteq> Some NOT_REQUIRED \<longrightarrow>
      evs ! i = (B, True))"
proof -
  have a: "\<forall>s. getNextState s \<noteq> NOT_REQUIRED"
    by (simp add: getNextState_not_NOT_REQUIRED)
  have b: "\<forall>states item v. SetStates item v \<in> set (handleClick p states item False) \<longrightarrow>
      v \<noteq> Some NOT_REQUIRED"
    by (auto simp: handleClick_def Let_def getNextState_not_NOT_REQUIRED
        split: if_splits option.splits)
  have c: "evs ! i = (B, True)"
    if i: "i < length evs"
      and after: "fst (activations p (take (Suc i) evs) cur) B = Some NOT_REQUIRED"
      and before: "fst (activations p (take i evs) cur) B \<noteq> Some NOT_REQUIRED" for i
  proof -
    obtain item r where e: "evs ! i = (item, r)"
      by (cases "evs ! i")
    from i e have "take (Suc i) evs = take i evs @ [(item, r)]"
      by (simp add: take_Suc_conv_app_nth)
    with after have "fst (activate p item r (fst (activations p (take i evs) cur))) B =
        Some NOT_REQUIRED"
      by (simp only: activations_snoc)
    from activate_sets_NOT_REQUIRED [OF this before] e show ?thesis by simp
  qed
  from a b c show ?thesis by blast
qed

theorem NOT_REQUIRED_only_by_secondary_witness:
  "fst (activations exampleProps [(FUELLING, False), (SERVICING, True)]
          (initialStateMap exampleProps)) SERVICING = Some NOT_REQUIRED \<and>
   fst (activations exampleProps [(FUELLING, False)]
          (initialStateMap exampleProps)) SERVICING = Some CURRENT \<and>
   [(FUELLING, False), (SERVICING, True)] ! 1 = (SERVICING, True) \<and>
   getNextState CURRENT \<noteq> NOT_REQUIRED"
proof -
  let ?evs = "[(FUELLING, False), (SERVICING, True)]"
  let ?cur = "initialStateMap exampleProps"
  note d = exampleProps_enabled
  have s0: "?cur SERVICING = Some CURRENT"
    by (simp add: exampleProps_initial)
  have h1: "fst (activations exampleProps (take (Suc 1) ?evs) ?cur) SERVICING = Some NOT_REQUIRED"
    by (simp add: activate_enabled [OF d] split_beta)
  have h2: "fst (activations exampleProps (take 1 ?evs) ?cur) SERVICING = Some CURRENT"
    by (simp add: activate_enabled [OF d] split_beta s0)
  have h0: "(1::nat) < length ?evs" by simp
  from NOT_REQUIRED_only_by_secondary [of exampleProps ?evs ?cur SERVICING]
  have n: "getNextState CURRENT \<noteq> NOT_REQUIRED"
    and "1 < length ?evs \<longrightarrow>
      fst (activations exampleProps (take (Suc 1) ?evs) ?cur) SERVICING = Some NOT_REQUIRED \<longrightarrow>
      fst (activations exampleProps (take 1 ?evs) ?cur) SERVICING \<noteq> Some NOT_REQUIRED \<longrightarrow>
      ?evs ! 1 = (SERVICING, True)"
    by blast+
  with h0 h1 h2 have "?evs ! 1 = (SERVICING, True)"
    by simp
  moreover from h1 have "fst (activations exampleProps ?evs ?cur) SERVICING = Some NOT_REQUIRED"
    by simp
  moreover from h2 have "fst (activations exampleProps [(FUELLING, False)] ?cur) SERVICING =
      Some CURRENT"
    by simp
  ultimately show ?thesis
    using n by blast
qed

text \<open>
  C9.  For every \<open>n\<close> from 1 on, applying \<open>getNextState\<close> \<open>n\<close> times to REQUIRED gives
  CURRENT when \<open>n\<close> is odd and COMPLETED when \<open>n\<close> is even, and COMPLETED goes to CURRENT
  and nowhere else; and \<open>n\<close> primary activations of an action that is REQUIRED, on a
  component that is not disabled, leave it in that state.
\<close>

theorem primary_cycle_from_REQUIRED:
  "1 \<le> n \<Longrightarrow>
   (getNextState ^^ n) REQUIRED = (if odd n then CURRENT else COMPLETED) \<and>
   getNextState COMPLETED = CURRENT \<and>
   (\<not> disabledOf p \<and> cur A = Some REQUIRED \<longrightarrow>
      fst (activations p (replicate n (A, False)) cur) A =
        Some (if odd n then CURRENT else COMPLETED))"
proof -
  assume "1 \<le> n"
  then obtain m where n: "n = Suc m"
    by (cases n) simp_all
  have a: "(getNextState ^^ n) REQUIRED = (if odd n then CURRENT else COMPLETED)"
    unfolding n by (simp only: getNextState_funpow_REQUIRED) simp
  have b: "getNextState COMPLETED = CURRENT"
    by (simp add: getNextState_def)
  have c: "fst (activations p (replicate n (A, False)) cur) A =
        Some (if odd n then CURRENT else COMPLETED)"
    if "\<not> disabledOf p" and "cur A = Some REQUIRED"
    using that a by (simp add: primary_activations_funpow)
  from a b c show ?thesis by blast
qed

theorem primary_cycle_from_REQUIRED_witness:
  "(1::nat) \<le> 3 \<and> (getNextState ^^ 3) REQUIRED = CURRENT \<and>
   (getNextState ^^ 4) REQUIRED = COMPLETED \<and>
   \<not> disabledOf exampleProps \<and> initialStateMap exampleProps CLEANING = Some REQUIRED \<and>
   fst (activations exampleProps (replicate 3 (CLEANING, False)) (initialStateMap exampleProps))
     CLEANING = Some CURRENT"
proof -
  note d = exampleProps_enabled
  have s0: "initialStateMap exampleProps CLEANING = Some REQUIRED"
    by (simp add: exampleProps_initial)
  have "(1::nat) \<le> 3" and "(1::nat) \<le> 4" by simp_all
  from primary_cycle_from_REQUIRED [OF this(1), of exampleProps "initialStateMap exampleProps" CLEANING]
    primary_cycle_from_REQUIRED [OF this(2), of exampleProps "initialStateMap exampleProps" CLEANING]
    d s0
  show ?thesis by simp
qed

text \<open>
  C10.  In the first version every activation of an action that has a state \<open>s\<close>, primary
  or secondary, stores the new state for the action (NOT_REQUIRED for the secondary
  gesture, the table's entry for \<open>s\<close> otherwise) and calls \<open>onChange\<close> with it when the
  props have a callback: the handler always issues the update, and the call when there is
  a callback, whatever the props are.  The props of that version are the four fields
  \<open>initialStates\<close>, \<open>variant\<close>, \<open>className\<close> and \<open>onChange\<close> and nothing else.
\<close>

theorem first_version_never_suppresses:
  "cur item = Some s \<Longrightarrow>
   (let newState = Some (if isRightClick then NOT_REQUIRED else getNextState_v1 s)
    in activate_v1 p item isRightClick cur =
         (cur(item := newState),
          case onChange p of None \<Rightarrow> [] | Some cb \<Rightarrow> [(cb, item, newState)]) \<and>
       SetStates item newState \<in> set (handleClick_v1 p cur item isRightClick) \<and>
       (\<forall>cb. onChange p = Some cb \<longrightarrow>
          OnChange cb item newState \<in> set (handleClick_v1 p cur item isRightClick))) \<and>
   p = \<lparr> initialStates = initialStates p, variant = variant p, className = className p,
         onChange = onChange p \<rparr>"
  by (simp add: activate_v1_def handleClick_v1_def Let_def split: option.splits)

theorem first_version_never_suppresses_witness:
  "initialStateMap firstProps CLEANING = Some COMPLETED \<and>
   activate_v1 firstProps CLEANING False (initialStateMap firstProps) =
     ((initialStateMap firstProps)(CLEANING \<mapsto> CURRENT),
      [(''handleStateChange'', CLEANING, Some CURRENT)]) \<and>
   activate_v1 firstProps CLEANING True (initialStateMap firstProps) =
     ((initialStateMap firstProps)(CLEANING \<mapsto> NOT_REQUIRED),
      [(''handleStateChange'', CLEANING, Some NOT_REQUIRED)])"
proof -
  let ?cur = "initialStateMap firstProps"
  have s0: "?cur CLEANING = Some COMPLETED"
    by (simp add: initialStateMap_apply initialStatesOf_def firstProps_def)
  have cb: "onChange firstProps = Some ''handleStateChange''"
    by (simp add: firstProps_def)
  have n1: "(if False then NOT_REQUIRED else getNextState_v1 COMPLETED) = CURRENT"
    by (simp add: getNextState_v1_def)
  have n2: "(if True then NOT_REQUIRED else getNextState_v1 COMPLETED) = NOT_REQUIRED"
    by simp
  note a = first_version_never_suppresses [of ?cur CLEANING COMPLETED False firstProps,
      OF s0, THEN conjunct1, unfolded Let_def, THEN conjunct1]
  note b = first_version_never_suppresses [of ?cur CLEANING COMPLETED True firstProps,
      OF s0, THEN conjunct1, unfolded Let_def, THEN conjunct1]
  from a b s0 show ?thesis
    by (simp only: cb option.case n1 n2)
qed

end
